theory Spec2Isabelle
  imports Complex_Main
begin

section \<open>Python values and the library operations the subscriber uses\<close>

text \<open>
  The subscriber (\<^verbatim>\<open>subscriber.py\<close>) handles whatever \<^verbatim>\<open>json.loads\<close> returns: \<^verbatim>\<open>None\<close>,
  booleans, unbounded integers, floats, strings, lists and dictionaries. A string is a list of
  characters; a dictionary is an association list read with \<open>map_of\<close> (the keys of a
  decoded object are distinct). The type \<open>'f\<close> stands for Python's \<^verbatim>\<open>float\<close>: the code
  obtains a float from the JSON decoder or from \<^verbatim>\<open>float(...)\<close>, multiplies a float timestamp
  by 1000 and otherwise passes floats on, all of it through the library, so the carrier is
  left open.
\<close>

datatype 'f pyval =
    PNone
  | PBool bool
  | PInt int
  | PFloat 'f
  | PStr string
  | PList "'f pyval list"
  | PDict "(string \<times> 'f pyval) list"

text \<open>The exception classes that occur; all of them are subclasses of \<^verbatim>\<open>Exception\<close>.\<close>

datatype exn =
    OperationalError
  | DatabaseError
  | TypeError
  | ValueError
  | AttributeError
  | OverflowError
  | JSONDecodeError
  | UnicodeDecodeError
  | Exception string

text \<open>
  Library code that is not part of the repository is a parameter of the model:
  \<^item> \<open>json_loads\<close> is \<^verbatim>\<open>json.loads(payload.decode())\<close> on the bytes of a message;
  \<^item> \<open>float_of_int\<close> and \<open>float_of_str\<close> are \<^verbatim>\<open>float(x)\<close> on an \<^verbatim>\<open>int\<close> and on a \<^verbatim>\<open>str\<close>
    (\<^verbatim>\<open>OverflowError\<close>, \<^verbatim>\<open>ValueError\<close> when they fail);
  \<^item> \<open>float_mul_int\<close> is \<^verbatim>\<open>x * n\<close> for a float \<open>x\<close> and an int \<open>n\<close>.
\<close>

record 'f pylib =
  json_loads :: "string \<Rightarrow> exn + 'f pyval"
  float_of_int :: "int \<Rightarrow> exn + 'f"
  float_of_str :: "string \<Rightarrow> exn + 'f"
  float_mul_int :: "'f \<Rightarrow> int \<Rightarrow> 'f"

text \<open>\<^verbatim>\<open>m.get(key)\<close> and \<^verbatim>\<open>m.get(key, default)\<close>: only a dictionary has the method.\<close>

fun py_get_default :: "'f pyval \<Rightarrow> string \<Rightarrow> 'f pyval \<Rightarrow> exn + 'f pyval" where
  "py_get_default (PDict kvs) k dflt =
     Inr (case map_of kvs k of None \<Rightarrow> dflt | Some v \<Rightarrow> v)"
| "py_get_default _ k dflt = Inl AttributeError"

definition py_get :: "'f pyval \<Rightarrow> string \<Rightarrow> exn + 'f pyval" where
  "py_get m k = py_get_default m k PNone"

text \<open>\<^verbatim>\<open>float(v)\<close>.\<close>

fun py_float :: "'f pylib \<Rightarrow> 'f pyval \<Rightarrow> exn + 'f" where
  "py_float lib PNone = Inl TypeError"
| "py_float lib (PBool b) = float_of_int lib (if b then 1 else 0)"
| "py_float lib (PInt i) = float_of_int lib i"
| "py_float lib (PFloat x) = Inr x"
| "py_float lib (PStr s) = float_of_str lib s"
| "py_float lib (PList xs) = Inl TypeError"
| "py_float lib (PDict kvs) = Inl TypeError"

text \<open>
  \<^verbatim>\<open>v * n\<close> for an int \<open>n\<close>: arithmetic on numbers (a bool counts as 0 or 1), repetition
  on strings and lists, \<^verbatim>\<open>TypeError\<close> on \<^verbatim>\<open>None\<close> and on a dictionary.
\<close>

fun py_mul :: "'f pylib \<Rightarrow> 'f pyval \<Rightarrow> int \<Rightarrow> exn + 'f pyval" where
  "py_mul lib PNone n = Inl TypeError"
| "py_mul lib (PBool b) n = Inr (PInt ((if b then 1 else 0) * n))"
| "py_mul lib (PInt i) n = Inr (PInt (i * n))"
| "py_mul lib (PFloat x) n = Inr (PFloat (float_mul_int lib x n))"
| "py_mul lib (PStr s) n = Inr (PStr (concat (replicate (nat n) s)))"
| "py_mul lib (PList xs) n = Inr (PList (concat (replicate (nat n) xs)))"
| "py_mul lib (PDict kvs) n = Inl TypeError"

text \<open>
  \<^verbatim>\<open>for m in v\<close> and \<^verbatim>\<open>len(v)\<close>: a list gives its elements, a string its characters, a
  dictionary its keys; nothing else is iterable or has a length.
\<close>

fun py_iter :: "'f pyval \<Rightarrow> exn + 'f pyval list" where
  "py_iter (PList xs) = Inr xs"
| "py_iter (PStr s) = Inr (map (\<lambda>c. PStr [c]) s)"
| "py_iter (PDict kvs) = Inr (map (\<lambda>kv. PStr (fst kv)) kvs)"
| "py_iter _ = Inl TypeError"

fun py_len :: "'f pyval \<Rightarrow> exn + nat" where
  "py_len (PList xs) = Inr (length xs)"
| "py_len (PStr s) = Inr (length s)"
| "py_len (PDict kvs) = Inr (length kvs)"
| "py_len _ = Inl TypeError"

text \<open>
  \<^verbatim>\<open>s.split(sep)\<close> for a separator of one character: the pieces between the occurrences of
  the separator, so always at least one piece. \<open>cur\<close> is the piece being read.
\<close>

fun split_acc :: "char \<Rightarrow> string \<Rightarrow> string \<Rightarrow> string list" where
  "split_acc sep cur [] = [cur]"
| "split_acc sep cur (c # cs) =
     (if c = sep then cur # split_acc sep [] cs else split_acc sep (cur @ [c]) cs)"

definition py_split :: "string \<Rightarrow> char \<Rightarrow> string list" where
  "py_split s sep = split_acc sep [] s"

text \<open>\<^verbatim>\<open>sep.join(parts)\<close>, used to say what the segments of a topic are.\<close>

fun py_join :: "char \<Rightarrow> string list \<Rightarrow> string" where
  "py_join sep [] = []"
| "py_join sep [s] = s"
| "py_join sep (s # t # ts) = s @ sep # py_join sep (t # ts)"

section \<open>The subscriber: \<^verbatim>\<open>insert_metrics\<close>\<close>

text \<open>
  Lines 52 to 57 of \<^verbatim>\<open>insert_metrics\<close>: the five labels \<^verbatim>\<open>namespace\<close>, \<^verbatim>\<open>group\<close>, \<^verbatim>\<open>mtype\<close>,
  \<^verbatim>\<open>node\<close>, \<^verbatim>\<open>device\<close>, each \<^verbatim>\<open>parts[i] if len(parts) > i else None\<close>.
\<close>

type_synonym labels =
  "string option \<times> string option \<times> string option \<times> string option \<times> string option"

definition part_or_none :: "string list \<Rightarrow> nat \<Rightarrow> string option" where
  "part_or_none parts i = (if length parts > i then Some (parts ! i) else None)"

definition decode_topic :: "string \<Rightarrow> labels" where
  "decode_topic topic =
     (let parts = py_split topic CHR ''/'' in
      (part_or_none parts 0, part_or_none parts 1, part_or_none parts 2,
       part_or_none parts 3, part_or_none parts 4))"

definition labels_list :: "labels \<Rightarrow> string option list" where
  "labels_list d = (case d of (a, b, c, e, f) \<Rightarrow> [a, b, c, e, f])"

text \<open>
  One row of the table \<^verbatim>\<open>mqtt_metrics\<close>, as the tuple appended at lines 61 to 71. The fields
  are the columns of the \<^verbatim>\<open>INSERT\<close>; \<open>mtype\<close> is the column \<^verbatim>\<open>type\<close> and \<open>metric_value\<close>
  the column \<^verbatim>\<open>value\<close>, which holds a float or \<^verbatim>\<open>None\<close>.
\<close>

record 'f row =
  namespace :: "string option"
  group_name :: "string option"
  mtype :: "string option"
  node :: "string option"
  device :: "string option"
  metric_name :: "'f pyval"
  metric_alias :: "'f pyval"
  metric_value :: "'f option"
  ts :: "'f pyval"

text \<open>
  Line 69: \<^verbatim>\<open>float(m.get("value")) if m.get("value") is not None else None\<close>. The condition
  is evaluated first, so \<^verbatim>\<open>float\<close> is not called on \<^verbatim>\<open>None\<close>.
\<close>

definition metric_value_of :: "'f pylib \<Rightarrow> 'f pyval \<Rightarrow> exn + 'f option" where
  "metric_value_of lib m =
     (case py_get m ''value'' of
        Inl e \<Rightarrow> Inl e
      | Inr v \<Rightarrow>
          if v \<noteq> PNone then
            (case py_float lib v of Inl e \<Rightarrow> Inl e | Inr x \<Rightarrow> Inr (Some x))
          else Inr None)"

text \<open>
  Lines 61 to 71: the tuple built for one metric \<open>m\<close>. The elements are evaluated from left
  to right and the first exception ends the evaluation.
\<close>

definition build_row :: "'f pylib \<Rightarrow> labels \<Rightarrow> 'f pyval \<Rightarrow> exn + 'f row" where
  "build_row lib d m =
     (case d of (ns, grp, mt, nd, dv) \<Rightarrow>
      case py_get m ''name'' of Inl e \<Rightarrow> Inl e | Inr name \<Rightarrow>
      case py_get m ''alias'' of Inl e \<Rightarrow> Inl e | Inr alias \<Rightarrow>
      case metric_value_of lib m of Inl e \<Rightarrow> Inl e | Inr v \<Rightarrow>
      case py_get m ''timestamp'' of Inl e \<Rightarrow> Inl e | Inr t \<Rightarrow>
      case py_mul lib t 1000 of Inl e \<Rightarrow> Inl e | Inr t1000 \<Rightarrow>
        Inr \<lparr>namespace = ns, group_name = grp, mtype = mt, node = nd, device = dv,
             metric_name = name, metric_alias = alias, metric_value = v, ts = t1000\<rparr>)"

text \<open>
  Lines 59 to 71: the loop \<^verbatim>\<open>for m in metrics: rows.append(...)\<close>, with \<open>rows\<close> the list built
  so far. An exception leaves the loop and the function.
\<close>

fun build_rows :: "'f pylib \<Rightarrow> labels \<Rightarrow> 'f row list \<Rightarrow> 'f pyval list \<Rightarrow> exn + 'f row list" where
  "build_rows lib d rows [] = Inr rows"
| "build_rows lib d rows (m # ms) =
     (case build_row lib d m of
        Inl e \<Rightarrow> Inl e
      | Inr r \<Rightarrow> build_rows lib d (rows @ [r]) ms)"

text \<open>
  The world outside the process: the calls of \<^verbatim>\<open>psycopg2.connect\<close> and \<^verbatim>\<open>time.sleep\<close> in the
  order they were made (with the committed \<^verbatim>\<open>CREATE TABLE IF NOT EXISTS\<close>), and the rows
  committed to \<^verbatim>\<open>mqtt_metrics\<close>.
\<close>

datatype event = Connect | Sleep int | CreateTable

record 'f world =
  trace :: "event list"
  mqtt_metrics :: "'f row list"

definition connections :: "'f world \<Rightarrow> nat" where
  "connections w = length (filter (\<lambda>ev. ev = Connect) (trace w))"

text \<open>
  The store is an external collaborator. Its behaviour is a parameter \<open>qdb\<close>: for the
  connection opened after \<open>k\<close> earlier ones, \<open>qdb k\<close> is the exception raised inside the block
  \<^verbatim>\<open>with psycopg2.connect(QDB_CONN) as conn: ...\<close> (by \<^verbatim>\<open>connect\<close>, by the statement or by
  \<^verbatim>\<open>commit\<close>), or \<open>None\<close> when the block completes. Nothing is committed when it raises.
\<close>

type_synonym store = "nat \<Rightarrow> exn option"

text \<open>\<^verbatim>\<open>insert_metrics(topic, metrics)\<close>, lines 51 to 84.\<close>

definition insert_metrics ::
  "'f pylib \<Rightarrow> store \<Rightarrow> string \<Rightarrow> 'f pyval \<Rightarrow> 'f world \<Rightarrow> (exn + unit) \<times> 'f world" where
  "insert_metrics lib qdb topic metrics w =
     (let d = decode_topic topic in
      case py_iter metrics of
        Inl e \<Rightarrow> (Inl e, w)
      | Inr ms \<Rightarrow>
          (case build_rows lib d [] ms of
             Inl e \<Rightarrow> (Inl e, w)
           | Inr rows \<Rightarrow>
               if rows = [] then (Inr (), w)
               else
                 (let w1 = w\<lparr>trace := trace w @ [Connect]\<rparr> in
                  case qdb (connections w) of
                    Some e \<Rightarrow> (Inl e, w1)
                  | None \<Rightarrow> (Inr (), w1\<lparr>mqtt_metrics := mqtt_metrics w1 @ rows\<rparr>))))"

section \<open>The subscriber: \<^verbatim>\<open>on_message\<close>\<close>

record mqtt_msg =
  msg_topic :: string
  msg_payload :: string

text \<open>
  \<^verbatim>\<open>on_message\<close> returns nothing; what it prints tells the two outcomes apart:
  \<^verbatim>\<open>Inserted {len(metrics)} metrics from topic {msg.topic}\<close> or
  \<^verbatim>\<open>Error processing message {msg.topic}: {e}\<close>.
\<close>

datatype printed = Inserted nat string | ErrorProcessing string exn

text \<open>The body of the \<^verbatim>\<open>try\<close>, lines 93 to 96; its value is \<^verbatim>\<open>len(metrics)\<close>.\<close>

definition on_message_try ::
  "'f pylib \<Rightarrow> store \<Rightarrow> mqtt_msg \<Rightarrow> 'f world \<Rightarrow> (exn + nat) \<times> 'f world" where
  "on_message_try lib qdb msg w =
     (case json_loads lib (msg_payload msg) of
        Inl e \<Rightarrow> (Inl e, w)
      | Inr payload \<Rightarrow>
          (case py_get_default payload ''metrics'' (PList []) of
             Inl e \<Rightarrow> (Inl e, w)
           | Inr metrics \<Rightarrow>
               (case insert_metrics lib qdb (msg_topic msg) metrics w of
                  (Inl e, w1) \<Rightarrow> (Inl e, w1)
                | (Inr u, w1) \<Rightarrow>
                    (case py_len metrics of
                       Inl e \<Rightarrow> (Inl e, w1)
                     | Inr n \<Rightarrow> (Inr n, w1)))))"

text \<open>\<^verbatim>\<open>on_message\<close>, lines 91 to 98: \<^verbatim>\<open>except Exception\<close> catches every exception above.\<close>

definition on_message ::
  "'f pylib \<Rightarrow> store \<Rightarrow> mqtt_msg \<Rightarrow> 'f world \<Rightarrow> printed \<times> 'f world" where
  "on_message lib qdb msg w =
     (case on_message_try lib qdb msg w of
        (Inl e, w1) \<Rightarrow> (ErrorProcessing (msg_topic msg) e, w1)
      | (Inr n, w1) \<Rightarrow> (Inserted n (msg_topic msg), w1))"

section \<open>The subscriber: \<^verbatim>\<open>create_table\<close>\<close>

text \<open>
  \<^verbatim>\<open>create_table(retries=10, delay=5)\<close>, lines 21 to 47: the loop \<^verbatim>\<open>while attempt < retries\<close>.
  Only \<^verbatim>\<open>psycopg2.OperationalError\<close> is caught; the handler counts the attempt and sleeps.
  \<^verbatim>\<open>time.sleep\<close> raises \<^verbatim>\<open>ValueError\<close> on a negative length, from inside the handler, so
  that exception leaves the function. Each pass either leaves the loop or increases
  \<open>attempt\<close>, which gives the termination measure \<open>retries - attempt\<close>.
\<close>

function create_table_loop ::
  "store \<Rightarrow> int \<Rightarrow> int \<Rightarrow> int \<Rightarrow> 'f world \<Rightarrow> (exn + unit) \<times> 'f world" where
  "create_table_loop qdb retries delay attempt w =
     (if attempt < retries then
        (case qdb (connections w) of
           None \<Rightarrow> (Inr (), w\<lparr>trace := trace w @ [Connect, CreateTable]\<rparr>)
         | Some e \<Rightarrow>
             if e = OperationalError then
               (if delay < 0 then (Inl ValueError, w\<lparr>trace := trace w @ [Connect]\<rparr>)
                else create_table_loop qdb retries delay (attempt + 1)
                       (w\<lparr>trace := trace w @ [Connect, Sleep delay]\<rparr>))
             else (Inl e, w\<lparr>trace := trace w @ [Connect]\<rparr>))
      else (Inl (Exception ''Failed to connect to QuestDB after multiple attempts.''), w))"
  by pat_completeness auto
termination
  by (relation "measure (\<lambda>(qdb, retries, delay, attempt, w). nat (retries - attempt))") auto

declare create_table_loop.simps [simp del]

definition create_table :: "store \<Rightarrow> int \<Rightarrow> int \<Rightarrow> 'f world \<Rightarrow> (exn + unit) \<times> 'f world" where
  "create_table qdb retries delay w = create_table_loop qdb retries delay 0 w"

text \<open>The call \<^verbatim>\<open>create_table()\<close> of the main program, with the default arguments.\<close>

definition create_table_default :: "store \<Rightarrow> 'f world \<Rightarrow> (exn + unit) \<times> 'f world" where
  "create_table_default qdb w = create_table qdb 10 5 w"

section \<open>The query service: \<^verbatim>\<open>get_latest_temperature\<close>\<close>

text \<open>
  \<^verbatim>\<open>main.py\<close>, lines 62 to 88. The exceptions that matter are asyncpg's
  \<^verbatim>\<open>UndefinedTableError\<close>, FastAPI's \<^verbatim>\<open>HTTPException(status_code, detail)\<close>, \<^verbatim>\<open>KeyError\<close> from
  \<^verbatim>\<open>row["Temperatur"]\<close>, and any other exception of the pool or the query; all are
  subclasses of \<^verbatim>\<open>Exception\<close>.
\<close>

datatype api_exn =
    UndefinedTableError
  | HTTPException nat string
  | KeyError
  | OtherError string

text \<open>
  What \<^verbatim>\<open>pool.acquire()\<close> followed by \<^verbatim>\<open>conn.fetchrow(...)\<close> does: it raises, or it returns the
  newest row (its columns by name), or \<^verbatim>\<open>None\<close> when the table has no row.
\<close>

datatype 'v fetched = Raises api_exn | Fetched "(string \<times> 'v) list option"

text \<open>The body of the \<^verbatim>\<open>try\<close>, lines 68 to 80.\<close>

definition get_latest_temperature_try :: "'v fetched \<Rightarrow> api_exn + (string \<times> 'v) list" where
  "get_latest_temperature_try reply =
     (case reply of
        Raises e \<Rightarrow> Inl e
      | Fetched None \<Rightarrow> Inl (HTTPException 404 ''No data found in Temp_data table.'')
      | Fetched (Some r) \<Rightarrow>
          (case map_of r ''Temperatur'' of
             None \<Rightarrow> Inl KeyError
           | Some latest_temp \<Rightarrow> Inr [(''Temperatur'', latest_temp)]))"

text \<open>
  The function with its two handlers, in the order of the source: first
  \<^verbatim>\<open>except asyncpg.exceptions.UndefinedTableError\<close>, then \<^verbatim>\<open>except Exception as e\<close>. The
  parameter \<open>str_of\<close> is \<^verbatim>\<open>str(e)\<close>.
\<close>

definition get_latest_temperature ::
  "(api_exn \<Rightarrow> string) \<Rightarrow> 'v fetched \<Rightarrow> api_exn + (string \<times> 'v) list" where
  "get_latest_temperature str_of reply =
     (case get_latest_temperature_try reply of
        Inr response \<Rightarrow> Inr response
      | Inl UndefinedTableError \<Rightarrow>
          Inl (HTTPException 500
                 ''The table 'Temp_data' does not exist in QuestDB. Please create it.'')
      | Inl e \<Rightarrow> Inl (HTTPException 500 (''Internal Server Error: '' @ str_of e)))"

text \<open>The status code a caller sees: 200 for a response, the code of the \<^verbatim>\<open>HTTPException\<close> else.\<close>

fun status_code :: "api_exn + 'a \<Rightarrow> nat" where
  "status_code (Inr response) = 200"
| "status_code (Inl (HTTPException code detail)) = code"
| "status_code (Inl e) = 500"

section \<open>Concrete inputs\<close>

text \<open>
  The inputs at which the theorems below are instantiated. The body and the document of the
  end-to-end scenario: \<open>x\<close> is the float that the decoder returns for the literal \<^verbatim>\<open>21.7\<close>.
\<close>

definition scenario_topic :: string where
  "scenario_topic = ''groupA/line1/press/nodeX/dev9''"

definition scenario_body :: string where
  \<open>scenario_body =
     ''{"metrics":[{"name":"temp","alias":3,"value":21.7,"timestamp":1700000000}]}''\<close>

definition scenario_doc :: "'f \<Rightarrow> 'f pyval" where
  "scenario_doc x =
     PDict [(''metrics'', PList [PDict [(''name'', PStr ''temp''), (''alias'', PInt 3),
                                        (''value'', PFloat x),
                                        (''timestamp'', PInt 1700000000)]])]"

definition scenario_row :: "'f \<Rightarrow> 'f row" where
  "scenario_row x =
     \<lparr>namespace = Some ''groupA'', group_name = Some ''line1'', mtype = Some ''press'',
      node = Some ''nodeX'', device = Some ''dev9'', metric_name = PStr ''temp'',
      metric_alias = PInt 3, metric_value = Some x, ts = PInt 1700000000000\<rparr>"

text \<open>
  A message with two metrics: the \<^verbatim>\<open>value\<close> of the first is the string \<^verbatim>\<open>abc\<close>, the second
  is well formed. And a message that is an object without the field \<^verbatim>\<open>metrics\<close>.
\<close>

definition mixed_body :: string where
  \<open>mixed_body =
     ''{"metrics":[{"name":"a","alias":1,"value":"abc","timestamp":10},{"name":"b","alias":2,"value":"12.5","timestamp":10}]}''\<close>

definition mixed_doc :: "'f pyval" where
  "mixed_doc =
     PDict [(''metrics'',
             PList [PDict [(''name'', PStr ''a''), (''alias'', PInt 1),
                           (''value'', PStr ''abc''), (''timestamp'', PInt 10)],
                    PDict [(''name'', PStr ''b''), (''alias'', PInt 2),
                           (''value'', PStr ''12.5''), (''timestamp'', PInt 10)]])]"

definition no_metrics_body :: string where
  \<open>no_metrics_body = ''{"status":"online"}''\<close>

definition no_metrics_doc :: "'f pyval" where
  "no_metrics_doc = PDict [(''status'', PStr ''online'')]"

text \<open>
  A library instance for these inputs. Its floats are decimal numerals, \<open>Dec m e\<close> for
  \<open>m \<times> 10\<^sup>e\<close>, which is enough to tell the values of the examples apart; it decodes the three
  bodies above, and converts the strings \<^verbatim>\<open>12.5\<close> and \<^verbatim>\<open>abc\<close> as Python does.
\<close>

datatype dec = Dec int int

definition sample_loads :: "string \<Rightarrow> exn + dec pyval" where
  "sample_loads s =
     (if s = scenario_body then Inr (scenario_doc (Dec 217 (- 1)))
      else if s = mixed_body then Inr mixed_doc
      else if s = no_metrics_body then Inr no_metrics_doc
      else Inl JSONDecodeError)"

definition sample_float_of_str :: "string \<Rightarrow> exn + dec" where
  "sample_float_of_str s = (if s = ''12.5'' then Inr (Dec 125 (- 1)) else Inl ValueError)"

definition sample_lib :: "dec pylib" where
  "sample_lib =
     \<lparr>json_loads = sample_loads,
      float_of_int = (\<lambda>i. Inr (Dec i 0)),
      float_of_str = sample_float_of_str,
      float_mul_int = (\<lambda>x n. case x of Dec m e \<Rightarrow> Dec (m * n) e)\<rparr>"

text \<open>
  Python's \<^verbatim>\<open>float\<close> is the IEEE 754 binary64 format. A finite double is an integer
  significand of at most 53 bits times a power of two: \<open>Dbl m e\<close> denotes the rational
  number \<open>m \<times> 2\<^sup>e\<close>. The product of a double and an int that is itself a double (as 1000
  is) is the exact product rounded once to 53 significant bits, to the nearest double and
  to the even significand on a tie. Results outside the normal range (overflow, subnormal
  numbers) are not covered.
\<close>

datatype dbl = Dbl int int

definition dbl_value :: "dbl \<Rightarrow> rat" where
  "dbl_value x =
     (case x of Dbl m e \<Rightarrow>
        if 0 \<le> e then of_int (m * 2 ^ nat e) else of_int m / of_int (2 ^ nat (- e)))"

fun bit_length :: "nat \<Rightarrow> nat" where
  "bit_length n = (if n = 0 then 0 else Suc (bit_length (n div 2)))"

declare bit_length.simps [simp del]

definition round_binary64 :: "int \<Rightarrow> int \<Rightarrow> dbl" where
  "round_binary64 m e =
     (let len = bit_length (nat \<bar>m\<bar>) in
      if len \<le> 53 then Dbl m e
      else
        (let k = len - 53;
             q = \<bar>m\<bar> div 2 ^ k;
             r = \<bar>m\<bar> mod 2 ^ k;
             q1 = (if 2 * r > 2 ^ k \<or> (2 * r = 2 ^ k \<and> odd q) then q + 1 else q)
         in Dbl (sgn m * q1) (e + int k)))"

definition dbl_mul_int :: "dbl \<Rightarrow> int \<Rightarrow> dbl" where
  "dbl_mul_int x n = (case x of Dbl m e \<Rightarrow> round_binary64 (m * n) e)"

text \<open>
  The library with binary64 floats. Its decoder and its conversion of strings reject
  everything: they are not called when a row is built from a metric without \<^verbatim>\<open>value\<close>,
  which is the only place this instance is used.
\<close>

definition binary64_lib :: "dbl pylib" where
  "binary64_lib =
     \<lparr>json_loads = (\<lambda>s. Inl JSONDecodeError),
      float_of_int = (\<lambda>i. Inr (round_binary64 i 0)),
      float_of_str = (\<lambda>s. Inl ValueError),
      float_mul_int = dbl_mul_int\<rparr>"

text \<open>
  A metric whose \<^verbatim>\<open>timestamp\<close> is the float \<open>1700000000 + 1/4194304\<close>, that is
  \<open>7130316800000001 / 2\<^sup>2\<^sup>2\<close>, a double with a significand of 53 bits.
\<close>

definition float_ts_metric :: "dbl pyval" where
  "float_ts_metric =
     PDict [(''name'', PStr ''temp''), (''timestamp'', PFloat (Dbl 7130316800000001 (- 22)))]"

text \<open>
  A store that accepts every connection, one that refuses every connection, and the world
  before anything has happened.
\<close>

definition reachable_store :: store where
  "reachable_store k = None"

definition unreachable_store :: store where
  "unreachable_store k = Some OperationalError"

text \<open>A store whose first two connections fail and whose third raises another error.\<close>

definition flaky_store :: store where
  "flaky_store k = (if k < 2 then Some OperationalError else Some DatabaseError)"

definition world0 :: "'f world" where
  "world0 = \<lparr>trace = [], mqtt_metrics = []\<rparr>"

section \<open>Topic decoding\<close>

lemma split_acc_no_sep:
  "sep \<notin> set s \<Longrightarrow> split_acc sep cur (s @ rest) = split_acc sep (cur @ s) rest"
  by (induction s arbitrary: cur) auto

lemma split_acc_join:
  "\<forall>s \<in> set (s0 # ss). sep \<notin> set s \<Longrightarrow>
   split_acc sep cur (py_join sep (s0 # ss)) = (cur @ s0) # ss"
proof (induction ss arbitrary: cur s0)
  case Nil
  then have "split_acc sep cur (s0 @ []) = split_acc sep (cur @ s0) []"
    by (intro split_acc_no_sep) simp
  then show ?case by simp
next
  case (Cons t ts)
  have "split_acc sep cur (s0 @ sep # py_join sep (t # ts))
        = split_acc sep (cur @ s0) (sep # py_join sep (t # ts))"
    using Cons.prems by (intro split_acc_no_sep) simp
  also have "\<dots> = (cur @ s0) # split_acc sep [] (py_join sep (t # ts))"
    by simp
  also have "split_acc sep [] (py_join sep (t # ts)) = ([] @ t) # ts"
    using Cons.prems by (intro Cons.IH) simp
  finally show ?case by simp
qed

lemma py_split_join:
  "segs \<noteq> [] \<Longrightarrow> \<forall>s \<in> set segs. sep \<notin> set s \<Longrightarrow> py_split (py_join sep segs) sep = segs"
  by (cases segs) (simp_all add: py_split_def split_acc_join del: py_join.simps)

lemma split_acc_nonempty: "split_acc sep cur s \<noteq> []"
  by (induction s arbitrary: cur) auto

lemma labels_of_parts:
  "[part_or_none parts 0, part_or_none parts 1, part_or_none parts 2,
    part_or_none parts 3, part_or_none parts 4]
   = map Some (take 5 parts) @ replicate (5 - length parts) None"
proof -
  have "map (part_or_none parts) [0..<5]
        = map Some (take 5 parts) @ replicate (5 - length parts) None"
    by (rule nth_equalityI) (auto simp: part_or_none_def nth_append)
  moreover have "[0..<5] = [0, 1, 2, 3, 4::nat]"
    by (simp add: upt_rec)
  ultimately show ?thesis by simp
qed

text \<open>
  Claim C2. The segments of a topic are the strings between its slashes: the topic is the segments
  joined by \<open>/\<close>, and no segment contains a slash. The decoder returns the first five segments
  in order, followed by \<open>None\<close> for each of the five labels the topic has no segment for.
  There is no error branch: \<open>decode_topic\<close> is a total function into the labels.
\<close>

theorem decode_topic_segments:
  assumes "segs \<noteq> []" and "\<forall>s \<in> set segs. CHR ''/'' \<notin> set s"
  shows "labels_list (decode_topic (py_join CHR ''/'' segs))
         = map Some (take 5 segs) @ replicate (5 - length segs) None"
proof -
  have "py_split (py_join CHR ''/'' segs) CHR ''/'' = segs"
    using assms by (rule py_split_join)
  then have "labels_list (decode_topic (py_join CHR ''/'' segs))
             = [part_or_none segs 0, part_or_none segs 1, part_or_none segs 2,
                part_or_none segs 3, part_or_none segs 4]"
    by (simp add: decode_topic_def labels_list_def Let_def del: py_join.simps)
  then show ?thesis
    by (simp only: labels_of_parts)
qed

theorem decode_topic_segments_witness:
  "labels_list (decode_topic ''spBv1.0/line1/DDATA'')
   = [Some ''spBv1.0'', Some ''line1'', Some ''DDATA'', None, None]
   \<and> labels_list (decode_topic ''a/b/c/d/e/f/g'')
   = [Some ''a'', Some ''b'', Some ''c'', Some ''d'', Some ''e'']"
  using decode_topic_segments [of "[''spBv1.0'', ''line1'', ''DDATA'']"]
        decode_topic_segments [of "[''a'', ''b'', ''c'', ''d'', ''e'', ''f'', ''g'']"]
  by (simp add: numeral_2_eq_2)

text \<open>The converse direction: splitting never fails and joining the pieces gives the topic back.\<close>

lemma py_join_split_acc: "py_join sep (split_acc sep cur s) = cur @ s"
proof (induction s arbitrary: cur)
  case Nil
  then show ?case by simp
next
  case (Cons c cs)
  obtain p ps where ps: "split_acc sep [] cs = p # ps"
    using split_acc_nonempty [of sep "[]" cs] by (cases "split_acc sep [] cs") auto
  have "py_join sep (split_acc sep [] cs) = cs"
    using Cons.IH [of "[]"] by simp
  with ps have "py_join sep (cur # p # ps) = cur @ sep # cs"
    by simp
  with ps Cons.IH [of "cur @ [c]"] show ?case
    by simp
qed

lemma py_join_split: "py_join sep (py_split s sep) = s"
  by (simp add: py_split_def py_join_split_acc)

section \<open>Rows\<close>

lemma build_row_value_fails:
  assumes "map_of mkvs ''value'' = Some v" and "v \<noteq> PNone" and "py_float lib v = Inl e"
  shows "build_row lib d (PDict mkvs) = Inl e"
  using assms by (cases d) (simp add: build_row_def py_get_def metric_value_of_def)

lemma build_rows_fails:
  "m \<in> set ms \<Longrightarrow> build_row lib d m = Inl e \<Longrightarrow> \<exists>e'. build_rows lib d rows ms = Inl e'"
proof (induction ms arbitrary: rows)
  case Nil
  then show ?case by simp
next
  case (Cons a ms)
  show ?case
  proof (cases "build_row lib d a")
    case (Inl e0)
    then show ?thesis by simp
  next
    case (Inr r)
    with Cons.prems have "m \<in> set ms" by auto
    then obtain e' where "build_rows lib d (rows @ [r]) ms = Inl e'"
      using Cons.IH Cons.prems(2) by blast
    with Inr show ?thesis by simp
  qed
qed

text \<open>
  Claim C3, as stated, at a concrete input: the \<^verbatim>\<open>timestamp\<close> is the float
  \<open>1700000000 + 1/4194304\<close>. The row is built and its \<open>ts\<close> is the double
  \<open>6963200000000001 / 2\<^sup>1\<^sup>2\<close>, the rounded product, which is not the timestamp times 1000.
\<close>

theorem float_timestamp_rounded_counterexample:
  "build_row binary64_lib (decode_topic scenario_topic) float_ts_metric
   = Inr \<lparr>namespace = Some ''groupA'', group_name = Some ''line1'', mtype = Some ''press'',
           node = Some ''nodeX'', device = Some ''dev9'', metric_name = PStr ''temp'',
           metric_alias = PNone, metric_value = None,
           ts = PFloat (Dbl 6963200000000001 (- 12))\<rparr>
   \<and> dbl_value (Dbl 6963200000000001 (- 12))
     \<noteq> dbl_value (Dbl 7130316800000001 (- 22)) * 1000"
proof -
  have d: "decode_topic scenario_topic
           = (Some ''groupA'', Some ''line1'', Some ''press'', Some ''nodeX'', Some ''dev9'')"
    by (simp add: decode_topic_def scenario_topic_def py_split_def part_or_none_def)
  have len: "bit_length 7130316800000001000 = 63"
    by (simp add: bit_length.simps)
  have mul: "dbl_mul_int (Dbl 7130316800000001 (- 22)) 1000 = Dbl 6963200000000001 (- 12)"
    by (simp add: dbl_mul_int_def round_binary64_def len Let_def)
  have row: "build_row binary64_lib (decode_topic scenario_topic) float_ts_metric
             = Inr \<lparr>namespace = Some ''groupA'', group_name = Some ''line1'',
                     mtype = Some ''press'', node = Some ''nodeX'', device = Some ''dev9'',
                     metric_name = PStr ''temp'', metric_alias = PNone, metric_value = None,
                     ts = PFloat (Dbl 6963200000000001 (- 12))\<rparr>"
    by (simp add: d build_row_def py_get_def metric_value_of_def float_ts_metric_def
        binary64_lib_def mul)
  have ne: "dbl_value (Dbl 6963200000000001 (- 12))
            \<noteq> dbl_value (Dbl 7130316800000001 (- 22)) * 1000"
    by (simp add: dbl_value_def)
  from row ne show ?thesis ..
qed

text \<open>A product that fits into 53 bits is not rounded.\<close>

lemma dbl_mul_int_exact:
  assumes "bit_length (nat \<bar>m * n\<bar>) \<le> 53"
  shows "dbl_value (dbl_mul_int (Dbl m e) n) = dbl_value (Dbl m e) * of_int n"
  using assms
  by (simp add: dbl_mul_int_def round_binary64_def dbl_value_def Let_def mult.commute
      mult.left_commute)

text \<open>
  Claim C3, amended. For a metric whose \<^verbatim>\<open>timestamp\<close> is the integer \<open>t\<close> and whose \<^verbatim>\<open>value\<close>
  can be converted, a row is built and its \<open>ts\<close> is the integer \<open>t * 1000\<close>. Python integers
  are unbounded, so the product is exact.
\<close>

theorem ts_is_timestamp_times_1000:
  assumes "map_of kvs ''timestamp'' = Some (PInt t)"
    and "metric_value_of lib (PDict kvs) = Inr v"
  shows "\<exists>r. build_row lib d (PDict kvs) = Inr r \<and> ts r = PInt (t * 1000)"
  using assms by (cases d) (simp add: build_row_def py_get_def)

theorem ts_is_timestamp_times_1000_witness:
  "\<exists>r. build_row sample_lib (decode_topic scenario_topic)
          (PDict [(''name'', PStr ''temp''), (''alias'', PInt 3),
                  (''value'', PFloat (Dec 217 (- 1))), (''timestamp'', PInt 1700000000)])
        = Inr r \<and> ts r = PInt 1700000000000"
proof -
  let ?kvs = "[(''name'', PStr ''temp''), (''alias'', PInt 3),
               (''value'', PFloat (Dec 217 (- 1))), (''timestamp'', PInt 1700000000)]"
  have 1: "map_of ?kvs ''timestamp'' = Some (PInt 1700000000)"
    by simp
  have 2: "metric_value_of sample_lib (PDict ?kvs) = Inr (Some (Dec 217 (- 1)))"
    by (simp add: metric_value_of_def py_get_def)
  show ?thesis
    using ts_is_timestamp_times_1000 [OF 1 2, of "decode_topic scenario_topic"] by simp
qed

text \<open>
  Claim C6. For a metric whose row is built (its \<^verbatim>\<open>timestamp\<close> can be multiplied): when
  \<^verbatim>\<open>value\<close> is absent or \<^verbatim>\<open>null\<close>, the value of the row is \<open>None\<close>, whatever the conversion
  functions of the library would do, so none is called; when \<^verbatim>\<open>value\<close> is present and
  \<^verbatim>\<open>float\<close> converts it to \<open>x\<close>, the value of the row is \<open>x\<close>.
\<close>

theorem value_field_null_or_coerced:
  assumes "py_get (PDict kvs) ''timestamp'' = Inr t" and "py_mul lib t 1000 = Inr t1000"
  shows "(map_of kvs ''value'' = None \<or> map_of kvs ''value'' = Some PNone \<longrightarrow>
            (\<exists>r. build_row lib d (PDict kvs) = Inr r \<and> metric_value r = None))
       \<and> (\<forall>v x. map_of kvs ''value'' = Some v \<and> v \<noteq> PNone \<and> py_float lib v = Inr x \<longrightarrow>
            (\<exists>r. build_row lib d (PDict kvs) = Inr r \<and> metric_value r = Some x))"
  using assms by (cases d) (auto simp add: build_row_def py_get_def metric_value_of_def)

theorem value_field_null_or_coerced_witness:
  "(\<exists>r. build_row sample_lib (decode_topic scenario_topic)
           (PDict [(''name'', PStr ''a''), (''timestamp'', PInt 10)]) = Inr r
        \<and> metric_value r = None)
   \<and> (\<exists>r. build_row sample_lib (decode_topic scenario_topic)
           (PDict [(''value'', PStr ''12.5''), (''timestamp'', PInt 10)]) = Inr r
        \<and> metric_value r = Some (Dec 125 (- 1)))"
proof -
  let ?absent = "[(''name'', PStr ''a''), (''timestamp'', PInt 10 :: dec pyval)]"
  let ?present = "[(''value'', PStr ''12.5''), (''timestamp'', PInt 10 :: dec pyval)]"
  have 1: "py_get (PDict ?absent) ''timestamp'' = Inr (PInt 10)"
    and 2: "py_get (PDict ?present) ''timestamp'' = Inr (PInt 10)"
    by (simp_all add: py_get_def)
  have 3: "py_mul sample_lib (PInt 10) 1000 = Inr (PInt 10000)"
    by simp
  have 4: "py_float sample_lib (PStr ''12.5'') = Inr (Dec 125 (- 1))"
    by (simp add: sample_lib_def sample_float_of_str_def)
  show ?thesis
    using value_field_null_or_coerced [OF 1 3, of "decode_topic scenario_topic"]
      value_field_null_or_coerced [OF 2 3, of "decode_topic scenario_topic"] 4
    by simp
qed

section \<open>Writing a batch\<close>

text \<open>
  Claim C7. Called with an empty list of metrics, \<^verbatim>\<open>insert_metrics\<close> returns normally and
  leaves the world as it was: no connection is opened and no row is written.
\<close>

theorem insert_metrics_empty:
  "insert_metrics lib qdb topic (PList []) w = (Inr (), w)
   \<and> connections (snd (insert_metrics lib qdb topic (PList []) w)) = connections w"
  by (simp add: insert_metrics_def)

section \<open>Processing a message\<close>

text \<open>
  Claim C1. When the decoder returns the document of the scenario for its body and the store
  accepts the connection, processing the message on the topic of the scenario opens one
  connection and appends exactly one row, the row of the scenario, with the float of the
  document as its value and \<open>1700000000000\<close> as its \<open>ts\<close>.
\<close>

theorem scenario_one_row:
  assumes "json_loads lib scenario_body = Inr (scenario_doc x)"
    and "qdb (connections w) = None"
  shows "on_message lib qdb \<lparr>msg_topic = scenario_topic, msg_payload = scenario_body\<rparr> w
         = (Inserted 1 scenario_topic,
            w\<lparr>trace := trace w @ [Connect],
              mqtt_metrics := mqtt_metrics w @ [scenario_row x]\<rparr>)"
proof -
  let ?m = "PDict [(''name'', PStr ''temp''), (''alias'', PInt 3), (''value'', PFloat x),
                   (''timestamp'', PInt 1700000000)]"
  have d: "decode_topic scenario_topic
           = (Some ''groupA'', Some ''line1'', Some ''press'', Some ''nodeX'', Some ''dev9'')"
    by (simp add: decode_topic_def scenario_topic_def py_split_def part_or_none_def)
  have r: "build_row lib (decode_topic scenario_topic) ?m = Inr (scenario_row x)"
    by (simp add: d build_row_def py_get_def metric_value_of_def scenario_row_def)
  have i: "insert_metrics lib qdb scenario_topic (PList [?m]) w
           = (Inr (), w\<lparr>trace := trace w @ [Connect],
                        mqtt_metrics := mqtt_metrics w @ [scenario_row x]\<rparr>)"
    using assms(2) by (simp add: insert_metrics_def r)
  show ?thesis
    using assms(1) by (simp add: on_message_def on_message_try_def scenario_doc_def i)
qed

theorem scenario_one_row_witness:
  "on_message sample_lib reachable_store
     \<lparr>msg_topic = scenario_topic, msg_payload = scenario_body\<rparr> world0
   = (Inserted 1 scenario_topic,
      \<lparr>trace = [Connect], mqtt_metrics = [scenario_row (Dec 217 (- 1))]\<rparr>)"
proof -
  have a: "json_loads sample_lib scenario_body = Inr (scenario_doc (Dec 217 (- 1)))"
    by (simp add: sample_lib_def sample_loads_def)
  have b: "reachable_store (connections (world0 :: dec world)) = None"
    by (simp add: reachable_store_def)
  show ?thesis
    using a b scenario_one_row [of sample_lib "Dec 217 (- 1)" reachable_store world0]
    by (simp add: world0_def)
qed

text \<open>
  Claim C5. When the body decodes to an object without the field \<^verbatim>\<open>metrics\<close>, the metrics are
  the empty list and the message is processed without an error: \<^verbatim>\<open>on_message\<close> reports 0
  inserted metrics and the world is unchanged.
\<close>

theorem missing_metrics_field:
  assumes "json_loads lib (msg_payload msg) = Inr (PDict kvs)"
    and "map_of kvs ''metrics'' = None"
  shows "py_get_default (PDict kvs) ''metrics'' (PList []) = Inr (PList [])
         \<and> on_message lib qdb msg w = (Inserted 0 (msg_topic msg), w)"
  using assms by (simp add: on_message_def on_message_try_def insert_metrics_def)

theorem missing_metrics_field_witness:
  "on_message sample_lib unreachable_store
     \<lparr>msg_topic = scenario_topic, msg_payload = no_metrics_body\<rparr> (world0 :: dec world)
   = (Inserted 0 scenario_topic, world0)"
proof -
  let ?msg = "\<lparr>msg_topic = scenario_topic, msg_payload = no_metrics_body\<rparr>"
  have 1: "json_loads sample_lib (msg_payload ?msg) = Inr (PDict [(''status'', PStr ''online'')])"
    by (simp add: sample_lib_def sample_loads_def mixed_body_def scenario_body_def
        no_metrics_body_def no_metrics_doc_def)
  have 2: "map_of [(''status'', PStr ''online'' :: dec pyval)] ''metrics'' = None"
    by simp
  show ?thesis
    using missing_metrics_field [OF 1 2, of unreachable_store world0] by simp
qed

text \<open>
  A body that decodes to something other than an object has no method \<^verbatim>\<open>get\<close>: the message
  ends in the error branch with \<^verbatim>\<open>AttributeError\<close>.
\<close>

lemma non_object_body_is_error:
  assumes "json_loads lib (msg_payload msg) = Inr payload" and "\<forall>kvs. payload \<noteq> PDict kvs"
  shows "on_message lib qdb msg w = (ErrorProcessing (msg_topic msg) AttributeError, w)"
  using assms by (cases payload) (simp_all add: on_message_def on_message_try_def)

text \<open>
  Claim C4, as stated, at a concrete input: the first metric of the message has the value
  \<^verbatim>\<open>abc\<close>, the second is well formed, the store is reachable. The message ends in the error
  branch with \<^verbatim>\<open>ValueError\<close> and the world is unchanged: the second metric is not inserted.
\<close>

theorem siblings_not_inserted_counterexample:
  "on_message sample_lib reachable_store
     \<lparr>msg_topic = scenario_topic, msg_payload = mixed_body\<rparr> world0
   = (ErrorProcessing scenario_topic ValueError, world0)"
  by (simp add: on_message_def on_message_try_def insert_metrics_def sample_lib_def
      sample_loads_def mixed_body_def scenario_body_def mixed_doc_def build_row_def py_get_def
      metric_value_of_def sample_float_of_str_def
      split: prod.split)

text \<open>
  Claim C4, amended. When one metric of a message has a \<^verbatim>\<open>value\<close> that \<^verbatim>\<open>float\<close> rejects, the
  whole message is rejected: \<^verbatim>\<open>on_message\<close> reports an error for the topic and the world is
  unchanged, so no connection is opened and no metric of the message is inserted. The
  exception reported is the one of the first metric that fails.
\<close>

theorem value_error_rejects_message:
  assumes "json_loads lib (msg_payload msg) = Inr (PDict kvs)"
    and "map_of kvs ''metrics'' = Some (PList ms)"
    and "PDict mkvs \<in> set ms"
    and "map_of mkvs ''value'' = Some v" and "v \<noteq> PNone" and "py_float lib v = Inl e"
  shows "\<exists>e'. on_message lib qdb msg w = (ErrorProcessing (msg_topic msg) e', w)"
proof -
  have "build_row lib (decode_topic (msg_topic msg)) (PDict mkvs) = Inl e"
    using assms(4-6) by (rule build_row_value_fails)
  with assms(3) obtain e' where
    "build_rows lib (decode_topic (msg_topic msg)) [] ms = Inl e'"
    using build_rows_fails by blast
  then have "insert_metrics lib qdb (msg_topic msg) (PList ms) w = (Inl e', w)"
    by (simp add: insert_metrics_def)
  then have "on_message lib qdb msg w = (ErrorProcessing (msg_topic msg) e', w)"
    using assms(1,2) by (simp add: on_message_def on_message_try_def)
  then show ?thesis ..
qed

theorem value_error_rejects_message_witness:
  "\<exists>e'. on_message sample_lib reachable_store
          \<lparr>msg_topic = scenario_topic, msg_payload = mixed_body\<rparr> (world0 :: dec world)
        = (ErrorProcessing scenario_topic e', world0)"
proof -
  let ?msg = "\<lparr>msg_topic = scenario_topic, msg_payload = mixed_body\<rparr>"
  let ?a = "[(''name'', PStr ''a''), (''alias'', PInt 1),
             (''value'', PStr ''abc''), (''timestamp'', PInt 10 :: dec pyval)]"
  let ?b = "[(''name'', PStr ''b''), (''alias'', PInt 2),
             (''value'', PStr ''12.5''), (''timestamp'', PInt 10 :: dec pyval)]"
  let ?kvs = "[(''metrics'', PList [PDict ?a, PDict ?b])]"
  have 1: "json_loads sample_lib (msg_payload ?msg) = Inr (PDict ?kvs)"
    by (simp add: sample_lib_def sample_loads_def mixed_body_def scenario_body_def mixed_doc_def)
  have 2: "py_float sample_lib (PStr ''abc'') = Inl ValueError"
    by (simp add: sample_lib_def sample_float_of_str_def)
  show ?thesis
    using value_error_rejects_message [where lib = sample_lib and msg = ?msg and kvs = ?kvs
        and mkvs = ?a and v = "PStr ''abc''" and e = ValueError and qdb = reachable_store
        and w = world0, OF 1 _ _ _ _ 2]
    by simp
qed

section \<open>Schema initialisation\<close>

lemma connections_append:
  "connections (w\<lparr>trace := trace w @ evs\<rparr>)
   = connections w + length (filter (\<lambda>ev. ev = Connect) evs)"
  by (simp add: connections_def)

text \<open>The three ways one pass of the loop can go when the connection does not succeed.\<close>

lemma create_table_loop_retry:
  assumes "attempt < retries" and "qdb (connections w) = Some OperationalError" and "0 \<le> delay"
  shows "create_table_loop qdb retries delay attempt w
         = create_table_loop qdb retries delay (attempt + 1)
             (w\<lparr>trace := trace w @ [Connect, Sleep delay]\<rparr>)"
  using assms by (subst create_table_loop.simps) simp

lemma create_table_loop_exhausted:
  assumes "\<not> attempt < retries"
  shows "create_table_loop qdb retries delay attempt w
         = (Inl (Exception ''Failed to connect to QuestDB after multiple attempts.''), w)"
  using assms by (subst create_table_loop.simps) simp

lemma create_table_loop_raise:
  assumes "attempt < retries" and "qdb (connections w) = Some e" and "e \<noteq> OperationalError"
  shows "create_table_loop qdb retries delay attempt w
         = (Inl e, w\<lparr>trace := trace w @ [Connect]\<rparr>)"
  using assms by (subst create_table_loop.simps) simp

lemma create_table_loop_unreachable:
  assumes "\<forall>k. qdb k = Some OperationalError" and "0 \<le> delay"
  shows "create_table_loop qdb retries delay attempt w
         = (Inl (Exception ''Failed to connect to QuestDB after multiple attempts.''),
            w\<lparr>trace := trace w
                 @ concat (replicate (nat (retries - attempt)) [Connect, Sleep delay])\<rparr>)"
proof (induction "nat (retries - attempt)" arbitrary: attempt w)
  case 0
  then have "\<not> attempt < retries" by simp
  with 0 show ?case by (simp add: create_table_loop_exhausted)
next
  case (Suc n)
  then have lt: "attempt < retries" and n: "n = nat (retries - (attempt + 1))"
    by linarith+
  have "create_table_loop qdb retries delay attempt w
        = create_table_loop qdb retries delay (attempt + 1)
            (w\<lparr>trace := trace w @ [Connect, Sleep delay]\<rparr>)"
    using lt assms by (intro create_table_loop_retry) simp_all
  also have "\<dots> = (Inl (Exception ''Failed to connect to QuestDB after multiple attempts.''),
            w\<lparr>trace := (trace w @ [Connect, Sleep delay])
                 @ concat (replicate n [Connect, Sleep delay])\<rparr>)"
    using Suc.hyps(1) [OF n] n by simp
  finally show ?case
    using Suc.hyps(2) [symmetric] by simp
qed

lemma create_table_loop_other:
  assumes "attempt + int k < retries"
    and "\<forall>i<k. qdb (connections w + i) = Some OperationalError"
    and "qdb (connections w + k) = Some e" and "e \<noteq> OperationalError" and "0 \<le> delay"
  shows "create_table_loop qdb retries delay attempt w
         = (Inl e, w\<lparr>trace := trace w
                        @ concat (replicate k [Connect, Sleep delay]) @ [Connect]\<rparr>)"
  using assms
proof (induction k arbitrary: attempt w)
  case 0
  then show ?case by (simp add: create_table_loop_raise)
next
  case (Suc k)
  let ?w = "w\<lparr>trace := trace w @ [Connect, Sleep delay]\<rparr>"
  have c: "connections ?w = connections w + 1"
    by (simp add: connections_append)
  have "qdb (connections w) = Some OperationalError"
    using Suc.prems(2) by (metis add.right_neutral zero_less_Suc)
  then have "create_table_loop qdb retries delay attempt w
        = create_table_loop qdb retries delay (attempt + 1) ?w"
    using Suc.prems by (intro create_table_loop_retry) simp_all
  also have "\<dots> = (Inl e, ?w\<lparr>trace := trace ?w
                        @ concat (replicate k [Connect, Sleep delay]) @ [Connect]\<rparr>)"
  proof (rule Suc.IH)
    show "attempt + 1 + int k < retries"
      using Suc.prems(1) by simp
    show "\<forall>i<k. qdb (connections ?w + i) = Some OperationalError"
    proof (intro allI impI)
      fix i assume "i < k"
      then have "Suc i < Suc k" by simp
      with Suc.prems(2) have "qdb (connections w + Suc i) = Some OperationalError"
        by blast
      then show "qdb (connections ?w + i) = Some OperationalError"
        by (simp add: c)
    qed
    show "qdb (connections ?w + k) = Some e"
      using Suc.prems(3) by (simp add: c)
  qed (use Suc.prems in simp_all)
  finally show ?case by simp
qed

text \<open>
  Claim C8. When every connection fails with \<^verbatim>\<open>OperationalError\<close> and the delay is not
  negative, \<^verbatim>\<open>create_table(retries, delay)\<close> returns, by raising the exception
  \<^verbatim>\<open>Failed to connect to QuestDB after multiple attempts.\<close>, after exactly \<open>retries\<close>
  connection attempts, each followed by one sleep of \<open>delay\<close>, and nothing else.
\<close>

theorem create_table_unreachable:
  assumes "\<forall>k. qdb k = Some OperationalError" and "0 \<le> delay"
  shows "create_table qdb retries delay w
         = (Inl (Exception ''Failed to connect to QuestDB after multiple attempts.''),
            w\<lparr>trace := trace w @ concat (replicate (nat retries) [Connect, Sleep delay])\<rparr>)"
  using create_table_loop_unreachable [OF assms, of retries 0 w]
  by (simp add: create_table_def)

text \<open>The call with the default arguments: ten attempts, five seconds after each.\<close>

theorem create_table_unreachable_witness:
  "create_table_default unreachable_store (world0 :: dec world)
   = (Inl (Exception ''Failed to connect to QuestDB after multiple attempts.''),
      \<lparr>trace = [Connect, Sleep 5, Connect, Sleep 5, Connect, Sleep 5, Connect, Sleep 5,
                Connect, Sleep 5, Connect, Sleep 5, Connect, Sleep 5, Connect, Sleep 5,
                Connect, Sleep 5, Connect, Sleep 5],
       mqtt_metrics = []\<rparr>)"
proof -
  have 1: "\<forall>k. unreachable_store k = Some OperationalError"
    by (simp add: unreachable_store_def)
  have 2: "(0::int) \<le> 5"
    by simp
  show ?thesis
    using create_table_unreachable [OF 1 2, of 10 "world0 :: dec world"]
    by (simp add: create_table_default_def world0_def eval_nat_numeral)
qed

text \<open>
  Claim C10. When \<open>k\<close> connections fail with \<^verbatim>\<open>OperationalError\<close> and the next attempt, still
  within the budget, raises an exception \<open>e\<close> of another class, \<^verbatim>\<open>create_table\<close> raises \<open>e\<close>
  at once: the trace ends with that attempt, with no sleep and no further attempt after it.
\<close>

theorem create_table_other_exception:
  assumes "int k < retries"
    and "\<forall>i<k. qdb (connections w + i) = Some OperationalError"
    and "qdb (connections w + k) = Some e" and "e \<noteq> OperationalError" and "0 \<le> delay"
  shows "create_table qdb retries delay w
         = (Inl e, w\<lparr>trace := trace w
                        @ concat (replicate k [Connect, Sleep delay]) @ [Connect]\<rparr>)"
  using create_table_loop_other [of 0 k retries qdb w e delay] assms
  by (simp add: create_table_def)

theorem create_table_other_exception_witness:
  "create_table flaky_store 10 5 (world0 :: dec world)
   = (Inl DatabaseError,
      \<lparr>trace = [Connect, Sleep 5, Connect, Sleep 5, Connect], mqtt_metrics = []\<rparr>)"
proof -
  have c: "connections (world0 :: dec world) = 0"
    by (simp add: connections_def world0_def)
  have 1: "int 2 < 10"
    by simp
  have 2: "\<forall>i<2. flaky_store (connections (world0 :: dec world) + i) = Some OperationalError"
    by (simp add: c flaky_store_def)
  have 3: "flaky_store (connections (world0 :: dec world) + 2) = Some DatabaseError"
    by (simp add: c flaky_store_def)
  have 4: "DatabaseError \<noteq> OperationalError" and 5: "(0::int) \<le> 5"
    by simp_all
  show ?thesis
    using create_table_other_exception [OF 1 2 3 4 5]
    by (simp add: world0_def eval_nat_numeral)
qed

section \<open>The latest reading\<close>

text \<open>
  Claim C9, evaluated on the code. When the table exists and is empty, \<^verbatim>\<open>fetchrow\<close> returns
  \<^verbatim>\<open>None\<close> and the function raises \<^verbatim>\<open>HTTPException(404)\<close> inside its own \<^verbatim>\<open>try\<close>; the handler
  \<^verbatim>\<open>except Exception\<close> catches it and raises \<^verbatim>\<open>HTTPException(500)\<close> instead. The caller sees
  the status 500, the same as for an unexpected failure and for a missing table.
\<close>

theorem latest_temperature_empty_table:
  "get_latest_temperature str_of (Fetched None)
   = Inl (HTTPException 500
            (''Internal Server Error: ''
             @ str_of (HTTPException 404 ''No data found in Temp_data table.'')))
   \<and> status_code (get_latest_temperature str_of (Fetched None))
     = status_code (get_latest_temperature str_of (Raises (OtherError s)))
   \<and> status_code (get_latest_temperature str_of (Fetched None))
     = status_code (get_latest_temperature str_of (Raises UndefinedTableError))"
  by (simp add: get_latest_temperature_def get_latest_temperature_try_def)

end
